theory Spec2Isabelle
  imports Complex_Main
begin

section \<open>JavaScript strings\<close>

text \<open>
  The scraper is JavaScript; its strings are sequences of UTF-16 code units. They are
  modelled as \<open>string\<close> (a list of \<open>char\<close>), that is, as the strings all of whose code
  units are below 256 (ASCII and the Latin-1 supplement). \<open>length\<close> is the JavaScript
  \<open>.length\<close>. A value that may be \<open>null\<close> or \<open>undefined\<close> is a \<open>string option\<close>; it is
  truthy when it is \<open>Some\<close> of a non-empty string.
\<close>

definition truthy :: "string option \<Rightarrow> bool" where
  "truthy v = (case v of None \<Rightarrow> False | Some s \<Rightarrow> s \<noteq> [])"

text \<open>The regular-expression class \<open>\s\<close>, which is also the set that \<open>trim\<close> removes:
  TAB, LF, VT, FF, CR, SPACE and NBSP are its members below 256.\<close>

definition isWhiteSpace :: "char \<Rightarrow> bool" where
  "isWhiteSpace c = ((of_char c :: nat) \<in> {9, 10, 11, 12, 13, 32, 160})"

text \<open>The class \<open>\d\<close>.\<close>

definition isDigit :: "char \<Rightarrow> bool" where
  "isDigit c = (48 \<le> (of_char c :: nat) \<and> (of_char c :: nat) \<le> 57)"

text \<open>The class \<open>[a-z]\<close>.\<close>

definition isLowerAZ :: "char \<Rightarrow> bool" where
  "isLowerAZ c = (97 \<le> (of_char c :: nat) \<and> (of_char c :: nat) \<le> 122)"

definition isHyphen :: "char \<Rightarrow> bool" where
  "isHyphen c = (c = CHR ''-'')"

text \<open>Line terminators, which the regular-expression dot does not match.\<close>

definition isLineTerminator :: "char \<Rightarrow> bool" where
  "isLineTerminator c = ((of_char c :: nat) \<in> {10, 13})"

text \<open>\<open>String.prototype.toLowerCase\<close>: on code units below 256 it maps \<open>A\<close>-\<open>Z\<close> and
  the upper-case Latin-1 letters (0xC0-0xDE without the multiplication sign 0xD7) to the
  code unit 32 above, and leaves every other code unit alone.\<close>

definition lowerChar :: "char \<Rightarrow> char" where
  "lowerChar c =
     (let n = (of_char c :: nat)
      in if (65 \<le> n \<and> n \<le> 90) \<or> (192 \<le> n \<and> n \<le> 222 \<and> n \<noteq> 215)
         then char_of (n + 32) else c)"

definition toLowerCase :: "string \<Rightarrow> string" where
  "toLowerCase s = map lowerChar s"

text \<open>\<open>String.prototype.toUpperCase\<close>: \<open>a\<close>-\<open>z\<close> and the lower-case Latin-1 letters
  (0xE0-0xFE without the division sign 0xF7) go to the code unit 32 below, the sharp s
  (0xDF) becomes \<open>SS\<close>. The upper-case forms of the micro sign (0xB5) and of y with
  diaeresis (0xFF) lie above 255, outside the modelled strings; the model leaves these
  two code units unchanged.\<close>

definition upperChar :: "char \<Rightarrow> string" where
  "upperChar c =
     (let n = (of_char c :: nat)
      in if (97 \<le> n \<and> n \<le> 122) \<or> (224 \<le> n \<and> n \<le> 254 \<and> n \<noteq> 247)
         then [char_of (n - 32)]
         else if n = 223 then ''SS'' else [c])"

definition toUpperCase :: "string \<Rightarrow> string" where
  "toUpperCase s = concat (map upperChar s)"

text \<open>\<open>s.startsWith(p)\<close> and \<open>s.includes(p)\<close>.\<close>

definition startsWith :: "string \<Rightarrow> string \<Rightarrow> bool" where
  "startsWith s p = (take (length p) s = p)"

fun includesStr :: "string \<Rightarrow> string \<Rightarrow> bool" where
  "includesStr [] p = (p = [])"
| "includesStr (c # cs) p = (startsWith (c # cs) p \<or> includesStr cs p)"

text \<open>\<open>s.trim()\<close>, and \<open>s.replace(/\s+$/, '')\<close>, which removes the trailing run of
  white space.\<close>

definition trimEnd :: "string \<Rightarrow> string" where
  "trimEnd s = rev (dropWhile isWhiteSpace (rev s))"

definition trim :: "string \<Rightarrow> string" where
  "trim s = trimEnd (dropWhile isWhiteSpace s)"

text \<open>\<open>s.replace(/\s+\d+$/, '')\<close>. The pattern is not global, so the leftmost match is
  replaced: a match must reach the end of the string, so it is the maximal final run of
  digits together with the maximal run of white space before it, and there is a match
  exactly when both runs are non-empty.\<close>

definition stripTrailingNumber :: "string \<Rightarrow> string" where
  "stripTrailingNumber s =
     (let r = rev s;
          digits = takeWhile isDigit r;
          rest = dropWhile isDigit r;
          spaces = takeWhile isWhiteSpace rest
      in if digits \<noteq> [] \<and> spaces \<noteq> [] then rev (dropWhile isWhiteSpace rest) else s)"

text \<open>\<open>s.replace(/[^a-z0-9\s-]/g, '')\<close>.\<close>

definition isSlugChar :: "char \<Rightarrow> bool" where
  "isSlugChar c = (isLowerAZ c \<or> isDigit c \<or> isWhiteSpace c \<or> isHyphen c)"

definition removeSpecial :: "string \<Rightarrow> string" where
  "removeSpecial s = filter isSlugChar s"

text \<open>\<open>s.replace(/C+/g, r)\<close> for a character class \<open>C\<close>: every maximal run of characters
  of the class is replaced by \<open>r\<close>. Used for \<open>/\s+/g\<close> and \<open>/-+/g\<close>.\<close>

function replaceRuns :: "(char \<Rightarrow> bool) \<Rightarrow> string \<Rightarrow> string \<Rightarrow> string" where
  "replaceRuns p r [] = []"
| "replaceRuns p r (c # cs) =
     (if p c then r @ replaceRuns p r (dropWhile p cs) else c # replaceRuns p r cs)"
  by pat_completeness auto
termination
  by (relation "measure (\<lambda>(p, r, s). length s)")
     (auto simp: length_dropWhile_le less_Suc_eq_le)

text \<open>\<open>s.replace(/^-|-$/g, '')\<close>: a hyphen at the very start is removed, and then a
  hyphen at the very end of what follows it.\<close>

definition trimHyphens :: "string \<Rightarrow> string" where
  "trimHyphens s =
     (let s1 = (case s of [] \<Rightarrow> [] | c # cs \<Rightarrow> if isHyphen c then cs else s)
      in if s1 \<noteq> [] \<and> isHyphen (last s1) then butlast s1 else s1)"

section \<open>Slug synthesis\<close>

text \<open>The chain of replacements that the extractor applies to a recovered title when no
  permalink was found (identical in the primary and the serverless extractor).\<close>

definition slugify :: "string \<Rightarrow> string" where
  "slugify shotTitle =
     trimHyphens
       (replaceRuns isHyphen ''-''
         (replaceRuns isWhiteSpace ''-''
           (removeSpecial (toLowerCase (stripTrailingNumber shotTitle)))))"

text \<open>The normal form that \<open>slugify\<close> produces: only lower-case letters, digits and
  hyphens, no two hyphens in a row, no hyphen first or last.\<close>

fun collapsed :: "string \<Rightarrow> bool" where
  "collapsed [] = True"
| "collapsed [c] = True"
| "collapsed (a # b # cs) = ((if isHyphen a then \<not> isHyphen b else True) \<and> collapsed (b # cs))"

definition plainSlugChar :: "char \<Rightarrow> bool" where
  "plainSlugChar c = ((isLowerAZ c \<or> isDigit c \<or> isHyphen c) \<and> \<not> isWhiteSpace c)"

definition normalized :: "string \<Rightarrow> bool" where
  "normalized s =
     (list_all plainSlugChar s \<and> collapsed s \<and>
      (case s of [] \<Rightarrow> True | c # cs \<Rightarrow> \<not> isHyphen c \<and> \<not> isHyphen (last s)))"

section \<open>More string operations of the scraper\<close>

text \<open>\<open>s.split(sep)\<close> for a string separator: the pieces between the leftmost
  non-overlapping occurrences of \<open>sep\<close>. \<open>cur\<close> holds the piece being read, reversed.
  With the empty separator JavaScript splits into the single code units.\<close>

function splitFrom :: "string \<Rightarrow> string \<Rightarrow> string \<Rightarrow> string list" where
  "splitFrom sep cur [] = [rev cur]"
| "splitFrom sep cur (c # cs) =
     (if sep \<noteq> [] \<and> startsWith (c # cs) sep
      then rev cur # splitFrom sep [] (drop (length sep) (c # cs))
      else splitFrom sep (c # cur) cs)"
  by pat_completeness auto
termination
  by (relation "measure (\<lambda>(sep, cur, s). length s)") auto

definition split :: "string \<Rightarrow> string \<Rightarrow> string list" where
  "split s sep = (if sep = [] then map (\<lambda>c. [c]) s else splitFrom sep [] s)"

text \<open>\<open>parts.join(sep)\<close>.\<close>

fun joinWith :: "string \<Rightarrow> string list \<Rightarrow> string" where
  "joinWith sep [] = []"
| "joinWith sep [x] = x"
| "joinWith sep (x # y # ys) = x @ sep @ joinWith sep (y # ys)"

text \<open>\<open>s.replace(/\?.*$/, '')\<close>: the dot matches no line terminator, so the leftmost
  question mark that no line terminator follows starts the match, which runs to the end.\<close>

fun stripQuery :: "string \<Rightarrow> string" where
  "stripQuery [] = []"
| "stripQuery (c # cs) =
     (if c = CHR ''?'' \<and> \<not> list_ex isLineTerminator cs then [] else c # stripQuery cs)"

text \<open>The decimal numeral that a template literal prints for a non-negative integer
  (\<open>`Video ${index + 1}`\<close>).\<close>

function showNat :: "nat \<Rightarrow> string" where
  "showNat n = (if n < 10 then [char_of (48 + n)]
                else showNat (n div 10) @ [char_of (48 + n mod 10)])"
  by pat_completeness auto
termination
  by (relation "measure id") auto

declare showNat.simps [simp del]

text \<open>\<open>previewUrl.match(/video\.gumlet\.io\/[^\/]+\/([^\/]+)/)\<close>, giving the captured
  group \<open>match[1]\<close>. \<open>gumletAt\<close> matches at the start of its argument: the literal, a
  non-empty run without a slash, a slash, and the captured non-empty run without a slash
  (both runs are greedy, and a shorter first run is never followed by a slash).
  \<open>matchGumlet\<close> takes the leftmost position where that succeeds.\<close>

definition notSlash :: "char \<Rightarrow> bool" where
  "notSlash c = (c \<noteq> CHR ''/'')"

definition gumletAt :: "string \<Rightarrow> string option" where
  "gumletAt s =
     (if startsWith s ''video.gumlet.io/'' then
        (let r = drop (length ''video.gumlet.io/'') s;
             bucket = takeWhile notSlash r;
             r1 = dropWhile notSlash r
         in if bucket \<noteq> [] \<and> r1 \<noteq> [] then
              (let videoId = takeWhile notSlash (tl r1)
               in if videoId \<noteq> [] then Some videoId else None)
            else None)
      else None)"

fun matchGumlet :: "string \<Rightarrow> string option" where
  "matchGumlet [] = None"
| "matchGumlet (c # cs) =
     (case gumletAt (c # cs) of Some videoId \<Rightarrow> Some videoId | None \<Rightarrow> matchGumlet cs)"

text \<open>JavaScript's \<open>a || b\<close> on values that are a string or \<open>null\<close>.\<close>

definition orElse :: "string option \<Rightarrow> string option \<Rightarrow> string option" where
  "orElse a b = (if truthy a then a else b)"

section \<open>The Record Extractor\<close>

text \<open>
  The function passed to \<open>page.evaluate\<close> reads the DOM only through a few queries; the
  model of the DOM holds what those queries return. For an element, \<open>querySelectorAll\<close>
  gives its heading descendants, its \<open>p, span, div\<close> descendants and its \<open>a[href]\<close>
  descendants, each in document order; of these only \<open>textContent\<close> and \<open>href\<close> are read.
  A video element carries its first \<open>source\<close> child (absent, or present with or without
  a \<open>src\<close>), its own \<open>src\<close> and \<open>data-src\<close>, and the chain that
  \<open>element = element.parentElement\<close> walks: the video itself, its parent, and so on up
  to the root.
\<close>

record anchor =
  a_href :: string
  a_text :: "string option"

record element =
  e_headings :: "string option list"
  e_textElements :: "string option list"
  e_links :: "anchor list"

record video =
  v_source :: "string option option"
  v_src :: "string option"
  v_dataSrc :: "string option"
  v_chain :: "element list"

text \<open>The two copies of the scraper: the primary one and the one of the serverless
  endpoint.\<close>

datatype variant = Primary | Serverless

text \<open>An extracted shot. The title is optional because the primary fallback records
  have none.\<close>

record shot =
  url :: string
  preview :: string
  title :: "string option"

text \<open>\<open>textContent?.trim()\<close>.\<close>

definition trimOpt :: "string option \<Rightarrow> string option" where
  "trimOpt t = (case t of None \<Rightarrow> None | Some s \<Rightarrow> Some (trim s))"

text \<open>Preview URL: the \<open>source\<close> child's \<open>src\<close>, else the video's \<open>src\<close>, else its
  \<open>data-src\<close>.\<close>

definition resolvePreview :: "video \<Rightarrow> string option" where
  "resolvePreview v =
     (let previewUrl = (case v_source v of None \<Rightarrow> None | Some src \<Rightarrow> src)
      in if \<not> truthy previewUrl then orElse (v_src v) (v_dataSrc v) else previewUrl)"

definition extractVideoId :: "string option \<Rightarrow> string option" where
  "extractVideoId previewUrl =
     (case previewUrl of
        None \<Rightarrow> None
      | Some p \<Rightarrow> if p \<noteq> [] \<and> includesStr p ''video.gumlet.io'' then matchGumlet p else None)"

text \<open>Title candidates. A heading qualifies when its trimmed text has more than 10 and
  fewer than 100 code units and none of the navigation words (the serverless extractor
  checks two of the four). The first qualifying heading replaces the title found so far;
  when there is none the title is kept.\<close>

definition headingWords :: "variant \<Rightarrow> string list" where
  "headingWords var =
     (case var of Primary \<Rightarrow> [''Shots'', ''Apps'', ''Filter'', ''Learn'']
      | Serverless \<Rightarrow> [''Shots'', ''Apps''])"

definition headingOk :: "variant \<Rightarrow> string option \<Rightarrow> bool" where
  "headingOk var t =
     (case t of None \<Rightarrow> False
      | Some text \<Rightarrow> text \<noteq> [] \<and> length text > 10 \<and> length text < 100 \<and>
          \<not> list_ex (includesStr text) (headingWords var))"

definition scanHeadings :: "variant \<Rightarrow> string option list \<Rightarrow> string option \<Rightarrow> string option" where
  "scanHeadings var hs shotTitle =
     (case find (headingOk var) (map trimOpt hs) of Some t \<Rightarrow> t | None \<Rightarrow> shotTitle)"

text \<open>Only the primary extractor looks at the other text elements, and only while no
  title is known: the first trimmed text of more than 15 and fewer than 80 code units
  with one of the motion-design keywords.\<close>

definition textWords :: "string list" where
  "textWords = [''Interaction'', ''Animation'', ''Swipe'', ''Card'', ''Button'', ''Progress'',
                ''Splash'', ''Gesture'']"

definition textOk :: "string option \<Rightarrow> bool" where
  "textOk t =
     (case t of None \<Rightarrow> False
      | Some text \<Rightarrow> text \<noteq> [] \<and> length text > 15 \<and> length text < 80 \<and>
          list_ex (includesStr text) textWords)"

definition scanTexts :: "variant \<Rightarrow> string option list \<Rightarrow> string option \<Rightarrow> string option" where
  "scanTexts var ts shotTitle =
     (case var of
        Primary \<Rightarrow>
          (if \<not> truthy shotTitle
           then (case find textOk (map trimOpt ts) of Some t \<Rightarrow> t | None \<Rightarrow> shotTitle)
           else shotTitle)
      | Serverless \<Rightarrow> shotTitle)"

text \<open>The test on an anchor's \<open>href\<close>. The primary extractor rejects an \<open>href\<close> that
  contains \<open>filter\<close> or \<open>watch\<close>; the serverless extractor tests \<open>filter\<close> only.\<close>

definition acceptHref :: "variant \<Rightarrow> string \<Rightarrow> bool" where
  "acceptHref var h =
     (h \<noteq> [] \<and> includesStr h ''/shots/'' \<and> \<not> includesStr h ''filter'' \<and>
      (case var of Primary \<Rightarrow> \<not> includesStr h ''watch'' | Serverless \<Rightarrow> True) \<and>
      length h > 15)"

definition cleanHref :: "string \<Rightarrow> string" where
  "cleanHref h =
     (let c1 = (if startsWith h ''./'' then drop 2 h else h)
      in if \<not> startsWith c1 ''/'' then ''/'' @ c1 else c1)"

definition shotUrlOf :: "string \<Rightarrow> string option \<Rightarrow> string" where
  "shotUrlOf h videoId =
     (case (if truthy videoId then videoId else None) of
        Some vid \<Rightarrow> ''https://60fps.design'' @ cleanHref h @ ''?video='' @ vid
      | None \<Rightarrow> ''https://60fps.design'' @ cleanHref h)"

text \<open>The anchor's text becomes the title when no title is known and the trimmed text
  has more than 5 code units.\<close>

definition cleanLinkText :: "variant \<Rightarrow> string \<Rightarrow> string" where
  "cleanLinkText var linkText =
     (case var of
        Primary \<Rightarrow> trim (trimEnd (stripTrailingNumber linkText))
      | Serverless \<Rightarrow> trim (stripTrailingNumber linkText))"

definition linkTitle :: "variant \<Rightarrow> anchor \<Rightarrow> string option \<Rightarrow> string option" where
  "linkTitle var l shotTitle =
     (case trimOpt (a_text l) of
        None \<Rightarrow> shotTitle
      | Some linkText \<Rightarrow>
          if \<not> truthy shotTitle \<and> linkText \<noteq> [] \<and> length linkText > 5
          then Some (cleanLinkText var linkText) else shotTitle)"

definition depthBound :: "variant \<Rightarrow> nat" where
  "depthBound var = (case var of Primary \<Rightarrow> 8 | Serverless \<Rightarrow> 6)"

text \<open>The ancestor walk \<open>while (element && attempts < bound)\<close>. The list is what is left of
  the chain (\<open>[]\<close> is \<open>element = null\<close>). The result is the pair of \<open>shotTitle\<close> and
  \<open>shotUrl\<close>; the walk ends at the first level that has an accepted anchor.\<close>

fun walk :: "variant \<Rightarrow> string option \<Rightarrow> nat \<Rightarrow> element list \<Rightarrow> string option
              \<Rightarrow> string option \<times> string option" where
  "walk var videoId attempts [] shotTitle = (shotTitle, None)"
| "walk var videoId attempts (e # es) shotTitle =
     (if attempts < depthBound var then
        (let t1 = scanHeadings var (e_headings e) shotTitle;
             t2 = scanTexts var (e_textElements e) t1
         in case find (\<lambda>l. acceptHref var (a_href l)) (e_links e) of
              Some l \<Rightarrow> (linkTitle var l t2, Some (shotUrlOf (a_href l) videoId))
            | None \<Rightarrow> walk var videoId (attempts + 1) es t2)
      else (shotTitle, None))"

text \<open>The fallback when the walk found no permalink but the preview is a Gumlet video:
  the slug comes from the title, or from the video id when there is no title.\<close>

definition fallbackUrl :: "nat \<Rightarrow> string \<Rightarrow> string option \<Rightarrow> string option \<times> string option" where
  "fallbackUrl index videoId shotTitle =
     (case (if truthy shotTitle then shotTitle else None) of
        Some t \<Rightarrow>
          (shotTitle, Some (''https://60fps.design/shots/'' @ slugify t @ ''?video='' @ videoId))
      | None \<Rightarrow>
          (Some (''Motion Video '' @ showNat (index + 1)),
           Some (''https://60fps.design/shots/'' @ (''motion-video-'' @ take 8 videoId)
                   @ ''?video='' @ videoId)))"

text \<open>The string held by a variable that has been tested to be truthy.\<close>

definition valueOf :: "string option \<Rightarrow> string" where
  "valueOf v = (case v of None \<Rightarrow> [] | Some s \<Rightarrow> s)"

text \<open>\<open>shotTitle\<close> and \<open>shotUrl\<close> of a video after the walk and the fallback.\<close>

definition resolveShot :: "variant \<Rightarrow> nat \<Rightarrow> video \<Rightarrow> string option \<times> string option" where
  "resolveShot var index v =
     (let videoId = extractVideoId (resolvePreview v);
          (t1, u1) = walk var videoId 0 (v_chain v) None
      in case videoId of
           Some vid \<Rightarrow> if \<not> truthy u1 \<and> vid \<noteq> [] then fallbackUrl index vid t1 else (t1, u1)
         | None \<Rightarrow> (t1, u1))"

text \<open>One turn of \<open>videos.forEach((video, index) => ...)\<close>: the record pushed to
  \<open>results\<close>, if any. None of the modelled operations throws, so the \<open>catch\<close> around
  the body has no branch here.\<close>

definition processVideo :: "variant \<Rightarrow> nat \<Rightarrow> video \<Rightarrow> shot option" where
  "processVideo var index v =
     (let previewUrl = resolvePreview v;
          (shotTitle, shotUrl) = resolveShot var index v
      in if truthy shotUrl \<and> truthy previewUrl
         then Some \<lparr>url = valueOf shotUrl, preview = valueOf previewUrl,
                    title = orElse shotTitle (Some (''Video '' @ showNat (index + 1)))\<rparr>
         else None)"

fun collect :: "variant \<Rightarrow> nat \<Rightarrow> video list \<Rightarrow> shot list" where
  "collect var index [] = []"
| "collect var index (v # vs) =
     (case processVideo var index v of
        None \<Rightarrow> collect var (index + 1) vs
      | Some s \<Rightarrow> s # collect var (index + 1) vs)"

text \<open>\<open>results.forEach\<close> with the set \<open>seenUrls\<close>: a shot is kept when its url has not
  been seen.\<close>

fun uniqueResults :: "string set \<Rightarrow> shot list \<Rightarrow> shot list" where
  "uniqueResults seenUrls [] = []"
| "uniqueResults seenUrls (s # ss) =
     (if url s \<notin> seenUrls then s # uniqueResults (insert (url s) seenUrls) ss
      else uniqueResults seenUrls ss)"

text \<open>What \<open>page.evaluate\<close> returns for the videos of the document, in document order.\<close>

definition extractShots :: "variant \<Rightarrow> video list \<Rightarrow> shot list" where
  "extractShots var videos = uniqueResults {} (collect var 0 videos)"

section \<open>The fallback record set\<close>

text \<open>The records returned from the \<open>catch\<close> block: five without a title in the primary
  scraper, three with a title in the serverless one.\<close>

definition mockData :: "variant \<Rightarrow> shot list" where
  "mockData var =
     (case var of
        Primary \<Rightarrow>
          [\<lparr>url = ''https://60fps.design/shots/amie-drag-to-calendar-morph'',
            preview = ''https://cdn.60fps.design/shots/amie-drag-to-calendar-morph/preview.mp4'',
            title = None\<rparr>,
           \<lparr>url = ''https://60fps.design/shots/cred-recurring-payments-card-swipe'',
            preview = ''https://cdn.60fps.design/shots/cred-recurring-payments/preview.mp4'',
            title = None\<rparr>,
           \<lparr>url = ''https://60fps.design/shots/mozi-onboarding-carousel-tabs'',
            preview = ''https://cdn.60fps.design/shots/mozi-onboarding/preview.mp4'',
            title = None\<rparr>,
           \<lparr>url = ''https://60fps.design/shots/opentable-splash-animation'',
            preview = ''https://cdn.60fps.design/shots/opentable-splash/preview.mp4'',
            title = None\<rparr>,
           \<lparr>url = ''https://60fps.design/shots/framer-motion-cards-grid'',
            preview = ''https://cdn.60fps.design/shots/framer-motion-cards/preview.mp4'',
            title = None\<rparr>]
      | Serverless \<Rightarrow>
          [\<lparr>url = ''https://60fps.design/shots/amie-drag-to-calendar-morph'',
            preview = ''https://cdn.60fps.design/shots/amie-drag-to-calendar-morph/preview.mp4'',
            title = Some ''Amie Drag To Calendar Morph''\<rparr>,
           \<lparr>url = ''https://60fps.design/shots/cred-recurring-payments-card-swipe'',
            preview = ''https://cdn.60fps.design/shots/cred-recurring-payments/preview.mp4'',
            title = Some ''CRED Recurring Payments Card Swipe''\<rparr>,
           \<lparr>url = ''https://60fps.design/shots/mozi-onboarding-carousel-tabs'',
            preview = ''https://cdn.60fps.design/shots/mozi-onboarding/preview.mp4'',
            title = Some ''Mozi Onboarding Carousel Tabs''\<rparr>])"

section \<open>The browser session\<close>

text \<open>
  The scraper drives a browser through Playwright. What the browser answers is the input
  of the model: \<open>'s\<close> is the state of the page (the site and its DOM at some moment), and
  each awaited call is a function of that state that either rejects with an error message
  (\<open>Inl\<close>) or resolves (\<open>Inr\<close>), with the new state where the call can change the page.
  A button is what \<open>locator(selector).all()\<close> yields, with the answers of its
  \<open>textContent()\<close> and \<open>isVisible()\<close>.
\<close>

type_synonym error = string

record button =
  b_id :: nat
  b_textContent :: "error + string option"
  b_isVisible :: "error + bool"

record 's page =
  p_goto :: "'s \<Rightarrow> error + 's"
  p_waitForTimeout :: "nat \<Rightarrow> 's \<Rightarrow> error + 's"
  p_count :: "string \<Rightarrow> 's \<Rightarrow> error + nat"
  p_all :: "string \<Rightarrow> 's \<Rightarrow> error + button list"
  p_click :: "button \<Rightarrow> 's \<Rightarrow> error + 's"
  p_title :: "'s \<Rightarrow> error + string"
  p_evaluate :: "'s \<Rightarrow> error + video list"

record 's session =
  s_executablePath :: "error option"
  s_launch :: "error option"
  s_newContext :: "error option"
  s_newPage :: "error + 's"
  s_close :: "error option"
  s_page :: "'s page"

section \<open>The Content-Ready Detector\<close>

definition possibleSelectors :: "variant \<Rightarrow> string list" where
  "possibleSelectors var =
     (case var of
        Primary \<Rightarrow>
          [''a[href^=\"/shots/\"]'', ''a[href*=\"/shots/\"]'', ''[href*=\"/shots/\"]'',
           ''a[href*=\"shots\"]'', ''video'', ''video source'', ''[data-framer-name*=\"shot\"]'',
           ''[data-framer-name*=\"card\"]'', ''[data-framer-name*=\"grid\"]'', ''.framer-*'',
           ''[data-framer-*]'', ''[class*=\"shot\"]'', ''[class*=\"card\"]'', ''[class*=\"item\"]'']
      | Serverless \<Rightarrow>
          [''a[href^=\"/shots/\"]'', ''a[href*=\"/shots/\"]'', ''[href*=\"/shots/\"]'',
           ''a[href*=\"shots\"]'', ''video'', ''video source'', ''[data-framer-name*=\"shot\"]'',
           ''[data-framer-name*=\"card\"]'', ''[class*=\"shot\"]'', ''[class*=\"card\"]''])"

text \<open>The loop over the candidate selectors: a rejected \<open>count()\<close> is caught and the next
  selector is tried. The result is \<open>foundSelector\<close> and \<open>contentCount\<close>.\<close>

fun detect :: "'s page \<Rightarrow> 's \<Rightarrow> string list \<Rightarrow> string option \<times> nat" where
  "detect pg s [] = (None, 0)"
| "detect pg s (selector # rest) =
     (case p_count pg selector s of
        Inl e \<Rightarrow> detect pg s rest
      | Inr contentCount \<Rightarrow>
          if contentCount > 0 then (Some selector, contentCount) else detect pg s rest)"

section \<open>The Incremental Loader\<close>

definition maxLoadAttempts :: "variant \<Rightarrow> nat" where
  "maxLoadAttempts var = (case var of Primary \<Rightarrow> 20 | Serverless \<Rightarrow> 5)"

definition buttonSelectors :: "variant \<Rightarrow> string list" where
  "buttonSelectors var =
     (case var of
        Primary \<Rightarrow>
          [''button:has-text(\"Load\")'', ''button:has-text(\"Show more\")'',
           ''button:has-text(\"Load more\")'', ''button:has-text(\"More\")'',
           ''[data-framer-name*=\"load\"]'', ''[data-framer-name*=\"more\"]'',
           ''[data-framer-name*=\"button\"]'', ''button[class*=\"load\"]'',
           ''button[class*=\"more\"]'', ''.load-more'', ''.show-more'', ''button'',
           ''[role=\"button\"]'']
      | Serverless \<Rightarrow>
          [''button:has-text(\"Load\")'', ''button:has-text(\"Show more\")'',
           ''button:has-text(\"Load more\")'', ''button:has-text(\"More\")'',
           ''[data-framer-name*=\"load\"]'', ''[data-framer-name*=\"more\"]'', ''button''])"

definition loadWords :: "variant \<Rightarrow> string list" where
  "loadWords var =
     (case var of Primary \<Rightarrow> [''load'', ''more'', ''show'', ''view'']
      | Serverless \<Rightarrow> [''load'', ''more'', ''show''])"

definition suggestsLoading :: "variant \<Rightarrow> bool \<Rightarrow> string option \<Rightarrow> bool" where
  "suggestsLoading var isVisible text =
     (case text of None \<Rightarrow> False
      | Some t \<Rightarrow> isVisible \<and> t \<noteq> [] \<and> list_ex (includesStr (toLowerCase t)) (loadWords var))"

text \<open>The loop over the buttons of one selector. \<open>Inl\<close> is an error thrown out of the
  loop (by \<open>textContent\<close>, \<open>isVisible\<close> or \<open>click\<close>); \<open>Inr (True, s')\<close> is a click.\<close>

fun clickFirst :: "variant \<Rightarrow> 's page \<Rightarrow> button list \<Rightarrow> 's \<Rightarrow> error + (bool \<times> 's)" where
  "clickFirst var pg [] s = Inr (False, s)"
| "clickFirst var pg (b # bs) s =
     (case b_textContent b of
        Inl e \<Rightarrow> Inl e
      | Inr text \<Rightarrow>
          (case b_isVisible b of
             Inl e \<Rightarrow> Inl e
           | Inr isVisible \<Rightarrow>
               if suggestsLoading var isVisible text
               then (case p_click pg b s of Inl e \<Rightarrow> Inl e | Inr s' \<Rightarrow> Inr (True, s'))
               else clickFirst var pg bs s))"

text \<open>The loop over the button selectors, with its \<open>try\<close>/\<open>catch\<close>: an error in one
  selector moves on to the next. The result is \<open>lastButtonClicked\<close> and the page.\<close>

fun clickLoadButton :: "variant \<Rightarrow> 's page \<Rightarrow> string list \<Rightarrow> 's \<Rightarrow> bool \<times> 's" where
  "clickLoadButton var pg [] s = (False, s)"
| "clickLoadButton var pg (selector # rest) s =
     (case p_all pg selector s of
        Inl e \<Rightarrow> clickLoadButton var pg rest s
      | Inr buttons \<Rightarrow>
          (case clickFirst var pg buttons s of
             Inl e \<Rightarrow> clickLoadButton var pg rest s
           | Inr (lastButtonClicked, s') \<Rightarrow>
               if lastButtonClicked then (True, s') else clickLoadButton var pg rest s))"

text \<open>The condition of \<open>do ... while (...)\<close>. The serverless copy declares
  \<open>lastButtonClicked\<close> inside the loop body and its condition does not mention it.\<close>

definition whileCondition :: "variant \<Rightarrow> nat \<Rightarrow> bool \<Rightarrow> nat \<Rightarrow> nat \<Rightarrow> bool" where
  "whileCondition var loadAttempts lastButtonClicked currentCount previousCount =
     (case var of
        Primary \<Rightarrow> loadAttempts < 3 \<or> (lastButtonClicked \<and> currentCount > previousCount)
      | Serverless \<Rightarrow> loadAttempts < 3 \<or> currentCount > previousCount)"

text \<open>Whether the loop body runs again, decided at the end of an iteration from the
  incremented \<open>loadAttempts\<close>: the two \<open>break\<close>s come first, then the loop condition.\<close>

definition continues :: "variant \<Rightarrow> nat \<Rightarrow> bool \<Rightarrow> nat \<Rightarrow> nat \<Rightarrow> bool" where
  "continues var loadAttempts lastButtonClicked currentCount previousCount =
     (if loadAttempts \<ge> maxLoadAttempts var then False
      else if \<not> lastButtonClicked \<and> currentCount > 0 then False
      else whileCondition var loadAttempts lastButtonClicked currentCount previousCount)"

definition settleDelay :: "variant \<Rightarrow> nat" where
  "settleDelay var = (case var of Primary \<Rightarrow> 3000 | Serverless \<Rightarrow> 2000)"

text \<open>One pass through the loop body up to the re-count: look for a button and click
  it, wait, count again. It gives \<open>lastButtonClicked\<close>, the page and \<open>currentCount\<close>.\<close>

definition iteration :: "variant \<Rightarrow> 's page \<Rightarrow> string \<Rightarrow> 's \<Rightarrow> error + (bool \<times> 's \<times> nat)" where
  "iteration var pg foundSelector s =
     (case clickLoadButton var pg (buttonSelectors var) s of
        (lastButtonClicked, s1) \<Rightarrow>
          (case p_waitForTimeout pg (settleDelay var) s1 of
             Inl e \<Rightarrow> Inl e
           | Inr s2 \<Rightarrow>
               (case p_count pg foundSelector s2 of
                  Inl e \<Rightarrow> Inl e
                | Inr currentCount \<Rightarrow> Inr (lastButtonClicked, s2, currentCount))))"

text \<open>The \<open>do\<close>/\<open>while\<close> loop, entered with the \<open>currentCount\<close> and \<open>loadAttempts\<close> of
  the previous iteration (both 0 at first). It ends with the page, the last count and
  the number of attempts, or with the error of a rejected wait or count.\<close>

function loadLoop :: "variant \<Rightarrow> 's page \<Rightarrow> string \<Rightarrow> 's \<Rightarrow> nat \<Rightarrow> nat \<Rightarrow> error + ('s \<times> nat \<times> nat)" where
  "loadLoop var pg foundSelector s currentCount loadAttempts =
     (case iteration var pg foundSelector s of
        Inl e \<Rightarrow> Inl e
      | Inr (lastButtonClicked, s', newCount) \<Rightarrow>
          if continues var (loadAttempts + 1) lastButtonClicked newCount currentCount
          then loadLoop var pg foundSelector s' newCount (loadAttempts + 1)
          else Inr (s', newCount, loadAttempts + 1))"
  by pat_completeness auto
termination
  by (relation "measure (\<lambda>(var, pg, foundSelector, s, currentCount, loadAttempts).
                  maxLoadAttempts var - loadAttempts)")
     (auto simp: continues_def split: if_splits)

declare loadLoop.simps [simp del]

section \<open>scrape60fps\<close>

definition initialDelay :: "variant \<Rightarrow> nat" where
  "initialDelay var = (case var of Primary \<Rightarrow> 10000 | Serverless \<Rightarrow> 8000)"

text \<open>What the scraper throws when no selector has content: the primary copy reads the
  page title first (and that call can reject too).\<close>

definition noContentError :: "variant \<Rightarrow> 's page \<Rightarrow> 's \<Rightarrow> error" where
  "noContentError var pg s =
     (case var of
        Primary \<Rightarrow>
          (case p_title pg s of
             Inl e \<Rightarrow> e
           | Inr t \<Rightarrow>
               if includesStr t ''Wups'' \<or> includesStr t ''Error''
               then ''The shots page appears to be showing an error. The site might be down or have changed structure.''
               else ''No shot content found with any known selectors. The site structure may have changed.'')
      | Serverless \<Rightarrow> ''No shot content found. The site structure may have changed.'')"

text \<open>The statements from \<open>page.goto\<close> to \<open>return shots\<close>, which both copies have inside
  the \<open>try\<close>: navigation, the settle delay, detection, the load loop and the extraction.
  \<open>Inl\<close> is an error thrown to the \<open>catch\<close>.\<close>

definition scrapePage :: "variant \<Rightarrow> 's page \<Rightarrow> 's \<Rightarrow> error + shot list" where
  "scrapePage var pg s0 =
     (case p_goto pg s0 of
        Inl e \<Rightarrow> Inl e
      | Inr s1 \<Rightarrow>
          (case p_waitForTimeout pg (initialDelay var) s1 of
             Inl e \<Rightarrow> Inl e
           | Inr s2 \<Rightarrow>
               (case detect pg s2 (possibleSelectors var) of
                  (None, contentCount) \<Rightarrow> Inl (noContentError var pg s2)
                | (Some foundSelector, contentCount) \<Rightarrow>
                    if contentCount = 0 then Inl (noContentError var pg s2)
                    else
                      (case loadLoop var pg foundSelector s2 0 0 of
                         Inl e \<Rightarrow> Inl e
                       | Inr (s3, currentCount, loadAttempts) \<Rightarrow>
                           (case p_evaluate pg s3 of
                              Inl e \<Rightarrow> Inl e
                            | Inr videos \<Rightarrow> Inr (extractShots var videos))))))"

text \<open>The result of a run: what the promise settles to, whether a browser process was
  launched, and whether \<open>browser.close()\<close> was called.\<close>

datatype outcome = Returned "shot list" | Threw error

record run =
  outcome :: outcome
  launched :: bool
  closeCalled :: bool

text \<open>\<open>catch\<close>: any error of the \<open>try\<close> block is replaced by the fallback records.\<close>

definition orMock :: "variant \<Rightarrow> error + shot list \<Rightarrow> shot list" where
  "orMock var r = (case r of Inl e \<Rightarrow> mockData var | Inr shots \<Rightarrow> shots)"

text \<open>\<open>finally { await browser.close() }\<close>: a rejected \<open>close\<close> replaces the result.\<close>

definition closing :: "'s session \<Rightarrow> shot list \<Rightarrow> run" where
  "closing env shots =
     (case s_close env of
        Some e \<Rightarrow> \<lparr>outcome = Threw e, launched = True, closeCalled = True\<rparr>
      | None \<Rightarrow> \<lparr>outcome = Returned shots, launched = True, closeCalled = True\<rparr>)"

text \<open>The primary copy launches the browser and creates the context and the page
  before its \<open>try\<close>; an error there leaves the function at once.\<close>

definition scrape60fpsPrimary :: "'s session \<Rightarrow> run" where
  "scrape60fpsPrimary env =
     (case s_launch env of
        Some e \<Rightarrow> \<lparr>outcome = Threw e, launched = False, closeCalled = False\<rparr>
      | None \<Rightarrow>
          (case s_newContext env of
             Some e \<Rightarrow> \<lparr>outcome = Threw e, launched = True, closeCalled = False\<rparr>
           | None \<Rightarrow>
               (case s_newPage env of
                  Inl e \<Rightarrow> \<lparr>outcome = Threw e, launched = True, closeCalled = False\<rparr>
                | Inr s0 \<Rightarrow> closing env (orMock Primary (scrapePage Primary (s_page env) s0)))))"

text \<open>The serverless copy has all of it inside the \<open>try\<close>, and closes the browser in
  \<open>finally\<close> when the variable \<open>browser\<close> has been assigned.\<close>

definition scrape60fpsServerless :: "'s session \<Rightarrow> run" where
  "scrape60fpsServerless env =
     (case s_executablePath env of
        Some e \<Rightarrow>
          \<lparr>outcome = Returned (mockData Serverless), launched = False, closeCalled = False\<rparr>
      | None \<Rightarrow>
          (case s_launch env of
             Some e \<Rightarrow>
               \<lparr>outcome = Returned (mockData Serverless), launched = False, closeCalled = False\<rparr>
           | None \<Rightarrow>
               (case s_newContext env of
                  Some e \<Rightarrow> closing env (mockData Serverless)
                | None \<Rightarrow>
                    (case s_newPage env of
                       Inl e \<Rightarrow> closing env (mockData Serverless)
                     | Inr s0 \<Rightarrow>
                         closing env
                           (orMock Serverless (scrapePage Serverless (s_page env) s0))))))"

definition scrape60fps :: "variant \<Rightarrow> 's session \<Rightarrow> run" where
  "scrape60fps var env =
     (case var of Primary \<Rightarrow> scrape60fpsPrimary env | Serverless \<Rightarrow> scrape60fpsServerless env)"

section \<open>The Result Formatter\<close>

text \<open>\<open>word.charAt(0).toUpperCase() + word.slice(1)\<close>.\<close>

definition capitalize :: "string \<Rightarrow> string" where
  "capitalize word = toUpperCase (take 1 word) @ drop 1 word"

definition extractTitleFromUrl :: "string \<Rightarrow> string" where
  "extractTitleFromUrl u =
     (if u = [] then ''Untitled Shot''
      else (let parts = split u ''/shots/''
            in if length parts < 2 then ''Untitled Shot''
               else joinWith '' '' (map capitalize (split (stripQuery (parts ! 1)) ''-''))))"

record row =
  r_title :: string
  r_url :: string
  r_preview_url :: string
  r_source :: string
  r_scraped_at :: string

text \<open>The mapping \<open>shots.map(s => ...)\<close>, the same in the command-line wrapper and in the
  HTTP handler. \<open>nowIso\<close> is the time stamp taken once per run.\<close>

definition formatRow :: "string \<Rightarrow> shot \<Rightarrow> row" where
  "formatRow nowIso s =
     \<lparr>r_title = trim (stripTrailingNumber
                  (case orElse (title s) (Some (extractTitleFromUrl (url s))) of
                     Some t \<Rightarrow> t | None \<Rightarrow> [])),
      r_url = url s,
      r_preview_url = preview s,
      r_source = ''60fps.design'',
      r_scraped_at = nowIso\<rparr>"

section \<open>The command-line wrapper\<close>

text \<open>
  A JavaScript number is \<open>NaN\<close>, an infinity or a finite value; the finite values are
  rationals. \<open>Number(string)\<close> belongs to the language, not to the repository: the
  wrapper is modelled for any such conversion \<open>toNumber\<close>. \<open>Number(undefined)\<close> is
  \<open>NaN\<close>.
\<close>

datatype jsnum = NaN | PosInfinity | NegInfinity | Finite rat

definition numberOf :: "(string \<Rightarrow> jsnum) \<Rightarrow> string option \<Rightarrow> jsnum" where
  "numberOf toNumber v = (case v of None \<Rightarrow> NaN | Some s \<Rightarrow> toNumber s)"

text \<open>\<open>if (Number.isFinite(n) && n > 0) return Math.floor(n)\<close>: the value returned, if
  the statement returns.\<close>

definition positiveFloor :: "jsnum \<Rightarrow> int option" where
  "positiveFloor n = (case n of Finite r \<Rightarrow> if r > 0 then Some \<lfloor>r\<rfloor> else None | _ \<Rightarrow> None)"

text \<open>\<open>argv.findIndex(a => a === x)\<close>, with \<open>None\<close> for \<open>-1\<close>, and \<open>argv[i]\<close>, with
  \<open>None\<close> for \<open>undefined\<close>.\<close>

fun findIndexFrom :: "nat \<Rightarrow> string \<Rightarrow> string list \<Rightarrow> nat option" where
  "findIndexFrom i x [] = None"
| "findIndexFrom i x (a # as) = (if a = x then Some i else findIndexFrom (i + 1) x as)"

definition argAt :: "string list \<Rightarrow> nat \<Rightarrow> string option" where
  "argAt xs i = (if i < length xs then Some (xs ! i) else None)"

definition parseLimitArg :: "(string \<Rightarrow> jsnum) \<Rightarrow> string list \<Rightarrow> string option \<Rightarrow> int option" where
  "parseLimitArg toNumber argv envLimit =
     (let fromArgument =
            (case findIndexFrom 0 ''--limit'' argv of
               None \<Rightarrow> None
             | Some argIdx \<Rightarrow>
                 if truthy (argAt argv (argIdx + 1))
                 then positiveFloor (numberOf toNumber (argAt argv (argIdx + 1)))
                 else None)
      in case fromArgument of
           Some n \<Rightarrow> Some n
         | None \<Rightarrow> positiveFloor (numberOf toNumber envLimit))"

text \<open>\<open>rows.slice(0, k)\<close> for an integer \<open>k\<close>; a negative end counts from the end of the
  array.\<close>

definition slice0 :: "'a list \<Rightarrow> int \<Rightarrow> 'a list" where
  "slice0 xs k = (if k < 0 then take (length xs - nat (- k)) xs else take (nat k) xs)"

text \<open>\<open>if (limit) rows = rows.slice(0, limit)\<close>: \<open>null\<close> and 0 are falsy.\<close>

definition applyLimit :: "int option \<Rightarrow> 'a list \<Rightarrow> 'a list" where
  "applyLimit limit rows =
     (case limit of None \<Rightarrow> rows | Some k \<Rightarrow> if k \<noteq> 0 then slice0 rows k else rows)"

text \<open>The wrapper's main function: the JSON array written to standard output, or the
  error written to standard error with exit code 1. It runs the primary scraper.\<close>

datatype cliResult = Stdout "row list" | ExitFailure error

definition cliMain :: "(string \<Rightarrow> jsnum) \<Rightarrow> string list \<Rightarrow> string option \<Rightarrow> string
                        \<Rightarrow> 's session \<Rightarrow> cliResult" where
  "cliMain toNumber argv envLimit nowIso env =
     (let limit = parseLimitArg toNumber argv envLimit
      in case outcome (scrape60fps Primary env) of
           Threw e \<Rightarrow> ExitFailure e
         | Returned shots \<Rightarrow> Stdout (applyLimit limit (map (formatRow nowIso) shots)))"

section \<open>The HTTP handler\<close>

text \<open>The request as the handler reads it: the method. The query string, with its
  \<open>limit\<close> parameter, is part of the request but the handler never reads it.\<close>

record request =
  q_method :: string
  q_limit :: "string option"

datatype response = Ended200 | Json200 "row list" | Json500 error

definition handler :: "request \<Rightarrow> string \<Rightarrow> 's session \<Rightarrow> response" where
  "handler req nowIso env =
     (if q_method req = ''OPTIONS'' then Ended200
      else (case outcome (scrape60fps Serverless env) of
              Returned shots \<Rightarrow> Json200 (map (formatRow nowIso) shots)
            | Threw e \<Rightarrow> Json500 (if e \<noteq> [] then e else ''Unknown error occurred'')))"

section \<open>Example inputs\<close>

text \<open>A small document with four videos. The first has a Gumlet source and, one level
  up, a heading and a shot link. The second has no usable preview URL. The third has a
  preview but neither a shot link nor a Gumlet id. The fourth resolves to the url of the
  first.\<close>

definition exampleLevel :: "string option list \<Rightarrow> anchor list \<Rightarrow> element" where
  "exampleLevel hs ls = \<lparr>e_headings = hs, e_textElements = [], e_links = ls\<rparr>"

definition exampleVideos :: "video list" where
  "exampleVideos =
     [\<lparr>v_source = Some (Some ''https://video.gumlet.io/bucket1/abc12345/main.mp4''),
       v_src = None, v_dataSrc = None,
       v_chain = [exampleLevel [] [],
                  exampleLevel [Some ''Demo Swipe Interaction'']
                    [\<lparr>a_href = ''/shots/demo-swipe'', a_text = Some ''Demo Swipe 5''\<rparr>]]\<rparr>,
      \<lparr>v_source = Some None, v_src = Some [], v_dataSrc = None,
       v_chain = [exampleLevel []
                    [\<lparr>a_href = ''/shots/no-preview-here'', a_text = None\<rparr>]]\<rparr>,
      \<lparr>v_source = None, v_src = Some ''https://cdn.example/clip.mp4'', v_dataSrc = None,
       v_chain = [exampleLevel [Some ''A heading without any link''] []]\<rparr>,
      \<lparr>v_source = None, v_src = None,
       v_dataSrc = Some ''https://video.gumlet.io/bucket1/abc12345/main.mp4'',
       v_chain = [exampleLevel [Some ''Another Card Animation'']
                    [\<lparr>a_href = ''./shots/demo-swipe'', a_text = None\<rparr>]]\<rparr>]"

text \<open>A page that never changes: every selector counts 5 elements and no selector has
  a button.\<close>

definition stillPage :: "unit page" where
  "stillPage =
     \<lparr>p_goto = Inr, p_waitForTimeout = (\<lambda>ms. Inr), p_count = (\<lambda>selector s. Inr 5),
      p_all = (\<lambda>selector s. Inr []), p_click = (\<lambda>b. Inr), p_title = (\<lambda>s. Inr ''60fps''),
      p_evaluate = (\<lambda>s. Inr exampleVideos)\<rparr>"



section \<open>Titles that survive the formatter\<close>




section \<open>Example sessions and requests\<close>

text \<open>A session in which everything resolves, on the page that never changes.\<close>

definition healthySession :: "unit session" where
  "healthySession =
     \<lparr>s_executablePath = None, s_launch = None, s_newContext = None, s_newPage = Inr (),
      s_close = None, s_page = stillPage\<rparr>"

text \<open>The same session, but \<open>page.goto\<close> rejects with a timeout.\<close>

definition navigationFailure :: "unit session" where
  "navigationFailure =
     healthySession
       \<lparr>s_page := stillPage\<lparr>p_goto := (\<lambda>s. Inl ''page.goto: Timeout exceeded'')\<rparr>\<rparr>"

text \<open>The same session, but \<open>browser.newContext\<close> rejects after the launch.\<close>

definition contextFailure :: "unit session" where
  "contextFailure = healthySession\<lparr>s_newContext := Some ''browser.newContext: failed''\<rparr>"

text \<open>A session whose page has one video, under an anchor whose \<open>href\<close> contains
  \<open>watch\<close>.\<close>

definition watchVideos :: "video list" where
  "watchVideos =
     [\<lparr>v_source = Some (Some ''https://cdn.example/clip.mp4''), v_src = None,
       v_dataSrc = None,
       v_chain = [exampleLevel []
                    [\<lparr>a_href = ''/shots/watch-demo-clip'', a_text = None\<rparr>]]\<rparr>]"

text \<open>The values of \<open>Number\<close> on the strings that the examples use (any other string of
  the examples is not numeric).\<close>

definition exampleNumber :: "string \<Rightarrow> jsnum" where
  "exampleNumber s =
     (if s = ''1'' then Finite 1
      else if s = ''2'' then Finite 2
      else if s = ''2.5'' then Finite (5 / 2)
      else if s = ''0.5'' then Finite (1 / 2)
      else if s = ''0'' \<or> s = [] then Finite 0
      else if s = ''-3'' then Finite (- 3)
      else if s = ''Infinity'' then PosInfinity
      else NaN)"


text \<open>A request with \<open>?limit=1\<close>.\<close>

definition limitOneRequest :: request where
  "limitOneRequest = \<lparr>q_method = ''GET'', q_limit = Some ''1''\<rparr>"

section \<open>The limit as the specification words it\<close>

text \<open>The argument that follows the first occurrence of a flag on the command line.\<close>

fun argumentAfter :: "string \<Rightarrow> string list \<Rightarrow> string option" where
  "argumentAfter flag [] = None"
| "argumentAfter flag (a # rest) =
     (if a = flag then (case rest of [] \<Rightarrow> None | b # others \<Rightarrow> Some b)
      else argumentAfter flag rest)"

text \<open>The number that a setting of the limit parses to; a setting that is absent or the
  empty string parses to nothing.\<close>

definition parsedSetting :: "(string \<Rightarrow> jsnum) \<Rightarrow> string option \<Rightarrow> jsnum" where
  "parsedSetting toNumber v =
     (case v of None \<Rightarrow> NaN | Some s \<Rightarrow> if s = [] then NaN else toNumber s)"

text \<open>A number is a usable limit when it is finite and above 0.\<close>

definition usable :: "jsnum \<Rightarrow> bool" where
  "usable n = (case n of Finite r \<Rightarrow> 0 < r | _ \<Rightarrow> False)"

text \<open>The limit in force: the number after \<open>--limit\<close> when it is usable, else the
  \<open>LIMIT\<close> variable when that is usable, else none.\<close>

definition specLimit :: "(string \<Rightarrow> jsnum) \<Rightarrow> string list \<Rightarrow> string option \<Rightarrow> rat option" where
  "specLimit toNumber argv envLimit =
     (let a = parsedSetting toNumber (argumentAfter ''--limit'' argv);
          e = numberOf toNumber envLimit
      in case (if usable a then a else if usable e then e else NaN) of
           Finite r \<Rightarrow> Some r
         | _ \<Rightarrow> None)"

section \<open>Slug synthesis is idempotent\<close>

lemma set_replaceRuns: "set (replaceRuns p r s) \<subseteq> set r \<union> {c \<in> set s. \<not> p c}"
proof (induction p r s rule: replaceRuns.induct)
  case (1 p r)
  then show ?case by simp
next
  case (2 p r c cs)
  show ?case
  proof (cases "p c")
    case True
    have "set (dropWhile p cs) \<subseteq> set cs" by (rule set_dropWhileD[THEN subsetI])
    with 2 True show ?thesis by auto
  next
    case False
    with 2 show ?thesis by auto
  qed
qed

lemma replaceRuns_id: "\<forall>c \<in> set s. \<not> p c \<Longrightarrow> replaceRuns p r s = s"
  by (induction s) auto

lemma replaceRuns_head:
  "s \<noteq> [] \<Longrightarrow> \<not> p (hd s) \<Longrightarrow> replaceRuns p r s \<noteq> [] \<and> hd (replaceRuns p r s) = hd s"
  by (cases s) auto

lemma dropWhile_head: "dropWhile p s \<noteq> [] \<Longrightarrow> \<not> p (hd (dropWhile p s))"
  by (simp add: hd_dropWhile)

lemma takeWhile_none: "\<forall>x \<in> set xs. \<not> P x \<Longrightarrow> takeWhile P xs = []"
  by (cases xs) auto

lemma collapsed_Cons:
  "collapsed (c # s) = ((s \<noteq> [] \<and> isHyphen c \<longrightarrow> \<not> isHyphen (hd s)) \<and> collapsed s)"
  by (cases s) auto

lemma collapsed_replaceRuns: "collapsed (replaceRuns isHyphen ''-'' s)"
proof (induction "isHyphen" "''-''" s rule: replaceRuns.induct)
  case 1
  then show ?case by simp
next
  case (2 c cs)
  show ?case
  proof (cases "isHyphen c")
    case True
    let ?d = "dropWhile isHyphen cs"
    have ih: "collapsed (replaceRuns isHyphen ''-'' ?d)" using 2 True by simp
    have eq: "replaceRuns isHyphen ''-'' (c # cs) = CHR ''-'' # replaceRuns isHyphen ''-'' ?d"
      using True by simp
    show ?thesis
    proof (cases "?d = []")
      case True
      have "replaceRuns isHyphen ''-'' ?d = []" unfolding True by simp
      then show ?thesis unfolding eq by simp
    next
      case False
      then have "\<not> isHyphen (hd ?d)" by (rule dropWhile_head)
      with False have "replaceRuns isHyphen ''-'' ?d \<noteq> []
          \<and> hd (replaceRuns isHyphen ''-'' ?d) = hd ?d"
        by (simp add: replaceRuns_head)
      with ih \<open>\<not> isHyphen (hd ?d)\<close> show ?thesis
        unfolding eq by (simp add: collapsed_Cons)
    qed
  next
    case False
    with 2 show ?thesis by (simp add: collapsed_Cons)
  qed
qed

lemma replaceRuns_collapsed: "collapsed s \<Longrightarrow> replaceRuns isHyphen ''-'' s = s"
proof (induction s)
  case Nil
  then show ?case by simp
next
  case (Cons c cs)
  then have c: "collapsed cs" and h: "cs \<noteq> [] \<and> isHyphen c \<longrightarrow> \<not> isHyphen (hd cs)"
    by (simp_all add: collapsed_Cons)
  show ?case
  proof (cases "isHyphen c")
    case True
    with h have "dropWhile isHyphen cs = cs" by (cases cs) auto
    moreover have "c = CHR ''-''" using True by (simp add: isHyphen_def)
    ultimately show ?thesis using True Cons.IH c by simp
  next
    case False
    with Cons.IH c show ?thesis by simp
  qed
qed

lemma collapsed_butlast: "collapsed s \<Longrightarrow> collapsed (butlast s)"
  by (induction s rule: collapsed.induct) (auto simp: collapsed_Cons)

lemma collapsed_last_butlast:
  "collapsed s \<Longrightarrow> isHyphen (last s) \<Longrightarrow> butlast s \<noteq> [] \<Longrightarrow> \<not> isHyphen (last (butlast s))"
  by (induction s rule: collapsed.induct) (auto split: if_splits)

lemma normalized_iff:
  "normalized s =
     (list_all plainSlugChar s \<and> collapsed s \<and>
      (s = [] \<or> (\<not> isHyphen (hd s) \<and> \<not> isHyphen (last s))))"
  by (cases s) (simp_all add: normalized_def)

lemma plain_space_stage:
  "list_all plainSlugChar (replaceRuns isWhiteSpace ''-'' (removeSpecial t))"
proof -
  have "set (replaceRuns isWhiteSpace ''-'' (removeSpecial t))
          \<subseteq> set ''-'' \<union> {c \<in> set (removeSpecial t). \<not> isWhiteSpace c}"
    by (rule set_replaceRuns)
  then show ?thesis
    by (auto simp: list_all_iff plainSlugChar_def removeSpecial_def isSlugChar_def
        isHyphen_def isWhiteSpace_def)
qed

lemma plain_hyphen_stage:
  "list_all plainSlugChar s \<Longrightarrow> list_all plainSlugChar (replaceRuns isHyphen ''-'' s)"
  using set_replaceRuns [of isHyphen "''-''" s]
  by (auto simp: list_all_iff plainSlugChar_def isHyphen_def isWhiteSpace_def)

lemma normalized_trimHyphens:
  assumes p: "list_all plainSlugChar s" and c: "collapsed s"
  shows "normalized (trimHyphens s)"
proof -
  define s1 where "s1 = (case s of [] \<Rightarrow> [] | c # cs \<Rightarrow> if isHyphen c then cs else s)"
  have t: "trimHyphens s = (if s1 \<noteq> [] \<and> isHyphen (last s1) then butlast s1 else s1)"
    by (simp add: trimHyphens_def s1_def)
  have p1: "list_all plainSlugChar s1" using p by (auto simp: s1_def split: list.splits)
  have c1: "collapsed s1" using c by (auto simp: s1_def collapsed_Cons split: list.splits)
  have h1: "s1 = [] \<or> \<not> isHyphen (hd s1)"
    using c by (auto simp: s1_def collapsed_Cons split: list.splits)
  show ?thesis
  proof (cases "s1 \<noteq> [] \<and> isHyphen (last s1)")
    case True
    have "list_all plainSlugChar (butlast s1)"
      using p1 by (auto simp: list_all_iff dest: in_set_butlastD)
    moreover have "collapsed (butlast s1)" using c1 by (rule collapsed_butlast)
    moreover have "butlast s1 = [] \<or> \<not> isHyphen (hd (butlast s1))"
      using h1 True by (cases s1) (auto split: if_splits)
    moreover have "butlast s1 = [] \<or> \<not> isHyphen (last (butlast s1))"
      using collapsed_last_butlast [OF c1] True by blast
    ultimately show ?thesis using True by (auto simp: t normalized_iff)
  next
    case False
    with p1 c1 h1 show ?thesis by (auto simp: t normalized_iff)
  qed
qed

lemma normalized_slugify: "normalized (slugify t)"
  unfolding slugify_def
  by (intro normalized_trimHyphens plain_hyphen_stage plain_space_stage collapsed_replaceRuns)

lemma plain_lower: "plainSlugChar c \<Longrightarrow> lowerChar c = c"
  by (auto simp: plainSlugChar_def lowerChar_def isLowerAZ_def isDigit_def isHyphen_def Let_def)

lemma plain_keep: "plainSlugChar c \<Longrightarrow> isSlugChar c"
  by (auto simp: plainSlugChar_def isSlugChar_def)

lemma strip_no_space:
  assumes "list_all plainSlugChar s"
  shows "stripTrailingNumber s = s"
proof -
  have "\<forall>c \<in> set (dropWhile isDigit (rev s)). \<not> isWhiteSpace c"
    using assms by (auto simp: list_all_iff plainSlugChar_def dest: set_dropWhileD)
  then have "takeWhile isWhiteSpace (dropWhile isDigit (rev s)) = []"
    by (rule takeWhile_none)
  then show ?thesis by (simp add: stripTrailingNumber_def Let_def)
qed

lemma trimHyphens_normalized: "normalized s \<Longrightarrow> trimHyphens s = s"
  by (cases s) (auto simp: normalized_iff trimHyphens_def Let_def)

lemma slugify_normalized:
  assumes n: "normalized s"
  shows "slugify s = s"
proof -
  have p: "list_all plainSlugChar s" and c: "collapsed s"
    using n by (simp_all add: normalized_iff)
  have 1: "stripTrailingNumber s = s" using p by (rule strip_no_space)
  have 2: "toLowerCase s = s"
    using p by (simp add: toLowerCase_def list_all_iff plain_lower map_idI)
  have 3: "removeSpecial s = s"
    using p by (simp add: removeSpecial_def list_all_iff plain_keep)
  have 4: "replaceRuns isWhiteSpace ''-'' s = s"
    using p by (intro replaceRuns_id) (simp add: list_all_iff plainSlugChar_def)
  have 5: "replaceRuns isHyphen ''-'' s = s" using c by (rule replaceRuns_collapsed)
  have 6: "trimHyphens s = s" using n by (rule trimHyphens_normalized)
  show ?thesis by (simp add: slugify_def 1 2 3 4 5 6)
qed

text \<open>
  Claim C7. The slug synthesis is idempotent: every string in the image of \<open>slugify\<close>,
  that is every \<open>slugify t\<close>, is returned unchanged by \<open>slugify\<close>. The image consists of
  normalized strings (\<open>normalized_slugify\<close>), and on a normalized string each of the six
  replacements finds nothing to replace.
\<close>

theorem slugify_idempotent: "slugify (slugify t) = slugify t"
  by (rule slugify_normalized) (rule normalized_slugify)

theorem slugify_idempotent_witness:
  "slugify (slugify ''Hello  World -- Foo! 12'') = ''hello-world-foo''"
proof -
  have "slugify ''Hello  World -- Foo! 12'' = ''hello-world-foo''" by code_simp
  with slugify_idempotent [of "''Hello  World -- Foo! 12''"] show ?thesis by simp
qed

section \<open>The output of the Record Extractor\<close>

lemma uniqueResults_index:
  "uniqueResults seen xs =
     map ((!) xs) (filter (\<lambda>i. url (xs ! i) \<notin> seen \<union> url ` set (take i xs)) [0..<length xs])"
proof (induction xs arbitrary: seen)
  case Nil
  then show ?case by simp
next
  case (Cons x xs)
  let ?P = "\<lambda>i. url ((x # xs) ! i) \<notin> seen \<union> url ` set (take i (x # xs))"
  have upt: "[0..<length (x # xs)] = 0 # map Suc [0..<length xs]"
    by (simp add: upt_conv_Cons map_Suc_upt del: upt_Suc)
  have pred: "?P \<circ> Suc = (\<lambda>i. url (xs ! i) \<notin> insert (url x) seen \<union> url ` set (take i xs))"
    by (auto simp: fun_eq_iff)
  have rest: "map ((!) (x # xs)) (filter ?P (map Suc [0..<length xs]))
                = uniqueResults (insert (url x) seen) xs"
    unfolding filter_map pred Cons.IH [of "insert (url x) seen"] by simp
  have "map ((!) (x # xs)) (filter ?P [0..<length (x # xs)])
          = (if url x \<notin> seen then [x] else []) @ uniqueResults (insert (url x) seen) xs"
    unfolding upt using rest by simp
  moreover have "url x \<in> seen \<Longrightarrow> insert (url x) seen = seen" by auto
  ultimately show ?case by auto
qed

lemma uniqueResults_fresh: "s \<in> set (uniqueResults seen xs) \<Longrightarrow> url s \<notin> seen"
  by (induction xs arbitrary: seen) (auto split: if_splits)

lemma uniqueResults_distinct: "distinct (map url (uniqueResults seen xs))"
proof (induction xs arbitrary: seen)
  case Nil
  then show ?case by simp
next
  case (Cons x xs)
  have "url x \<notin> url ` set (uniqueResults (insert (url x) seen) xs)"
    using uniqueResults_fresh [of _ "insert (url x) seen" xs] by fastforce
  with Cons show ?case by simp
qed

lemma uniqueResults_subset: "set (uniqueResults seen xs) \<subseteq> set xs"
  by (induction xs arbitrary: seen) auto

lemma processVideo_Some:
  "processVideo var index v = Some s \<Longrightarrow> url s \<noteq> [] \<and> preview s \<noteq> []"
  by (auto simp: processVideo_def Let_def truthy_def valueOf_def
      split: prod.splits if_splits option.splits)

lemma collect_set:
  "s \<in> set (collect var index vs) \<Longrightarrow> \<exists>k v. processVideo var k v = Some s"
  by (induction vs arbitrary: index) (auto split: option.splits)

lemma collect_map_filter:
  "collect var index vs =
     List.map_filter (\<lambda>(k, v). processVideo var k v) (zip [index..<index + length vs] vs)"
proof (induction vs arbitrary: index)
  case Nil
  then show ?case by simp
next
  case (Cons v vs)
  have "[index..<index + length (v # vs)] = index # [Suc index..<Suc index + length vs]"
    by (simp add: upt_conv_Cons del: upt_Suc)
  then show ?case
    using Cons.IH [of "Suc index"]
    by (simp split: option.splits del: upt_Suc)
qed

text \<open>
  Claim C1. Every shot that an extraction run returns has a non-empty \<open>url\<close> and a
  non-empty \<open>preview\<close>. A video contributes no record exactly when its shot URL or
  its preview URL is not resolved (\<open>null\<close> or empty); the records collected are those of
  the videos that pass, one each, in document order, and nothing else. Both extractors.
\<close>

theorem extractor_records_complete:
  "(\<forall>s \<in> set (extractShots var videos). url s \<noteq> [] \<and> preview s \<noteq> []) \<and>
   ((processVideo var index v = None) =
      (\<not> (truthy (snd (resolveShot var index v)) \<and> truthy (resolvePreview v)))) \<and>
   collect var 0 videos =
     List.map_filter (\<lambda>(k, v). processVideo var k v) (zip [0..<length videos] videos)"
proof (intro conjI ballI)
  fix s
  assume "s \<in> set (extractShots var videos)"
  then have "s \<in> set (collect var 0 videos)"
    using uniqueResults_subset by (auto simp: extractShots_def)
  then obtain k w where "processVideo var k w = Some s"
    using collect_set by blast
  then have "url s \<noteq> [] \<and> preview s \<noteq> []" by (rule processVideo_Some)
  then show "url s \<noteq> []" and "preview s \<noteq> []" by simp_all
next
  show "(processVideo var index v = None) =
      (\<not> (truthy (snd (resolveShot var index v)) \<and> truthy (resolvePreview v)))"
    by (auto simp: processVideo_def Let_def split: prod.splits)
next
  show "collect var 0 videos =
     List.map_filter (\<lambda>(k, v). processVideo var k v) (zip [0..<length videos] videos)"
    using collect_map_filter [of var 0 videos] by simp
qed

theorem extractor_records_complete_witness:
  "extractShots Primary exampleVideos =
     [\<lparr>url = ''https://60fps.design/shots/demo-swipe?video=abc12345'',
       preview = ''https://video.gumlet.io/bucket1/abc12345/main.mp4'',
       title = Some ''Demo Swipe Interaction''\<rparr>] \<and>
   url (hd (extractShots Primary exampleVideos)) \<noteq> [] \<and>
   preview (hd (extractShots Primary exampleVideos)) \<noteq> [] \<and>
   processVideo Primary 1 (exampleVideos ! 1) = None \<and>
   \<not> truthy (resolvePreview (exampleVideos ! 1))"
proof -
  have out: "extractShots Primary exampleVideos =
     [\<lparr>url = ''https://60fps.design/shots/demo-swipe?video=abc12345'',
       preview = ''https://video.gumlet.io/bucket1/abc12345/main.mp4'',
       title = Some ''Demo Swipe Interaction''\<rparr>]"
    by code_simp
  then have mem: "hd (extractShots Primary exampleVideos) \<in> set (extractShots Primary exampleVideos)"
    by simp
  have np: "\<not> truthy (resolvePreview (exampleVideos ! 1))" by code_simp
  note inst = extractor_records_complete [of Primary exampleVideos 1 "exampleVideos ! 1"]
  from inst mem have "url (hd (extractShots Primary exampleVideos)) \<noteq> []"
    and "preview (hd (extractShots Primary exampleVideos)) \<noteq> []" by blast+
  moreover from inst np have "processVideo Primary 1 (exampleVideos ! 1) = None" by blast
  ultimately show ?thesis using out np by blast
qed

text \<open>
  Claim C2. The urls of the returned shots are pairwise different, and the returned
  list consists of exactly those collected records whose url (compared as a string) does
  not occur at an earlier position, in their original order: the first occurrence of
  every url and nothing else. Both extractors.
\<close>

theorem extractor_dedup:
  "distinct (map url (extractShots var videos)) \<and>
   extractShots var videos =
     (let results = collect var 0 videos
      in map ((!) results)
           (filter (\<lambda>i. url (results ! i) \<notin> url ` set (take i results)) [0..<length results]))"
  unfolding extractShots_def Let_def
  using uniqueResults_distinct [of "{}"] uniqueResults_index [of "{}"] by simp

theorem extractor_dedup_witness:
  "map url (collect Primary 0 exampleVideos) =
     [''https://60fps.design/shots/demo-swipe?video=abc12345'',
      ''https://60fps.design/shots/demo-swipe?video=abc12345''] \<and>
   distinct (map url (extractShots Primary exampleVideos)) \<and>
   map title (extractShots Primary exampleVideos) = [Some ''Demo Swipe Interaction'']"
proof -
  have "map url (collect Primary 0 exampleVideos) =
     [''https://60fps.design/shots/demo-swipe?video=abc12345'',
      ''https://60fps.design/shots/demo-swipe?video=abc12345'']" by code_simp
  moreover have "map title (extractShots Primary exampleVideos) = [Some ''Demo Swipe Interaction'']"
    by code_simp
  moreover from extractor_dedup [of Primary exampleVideos]
  have "distinct (map url (extractShots Primary exampleVideos))" by (rule conjunct1)
  ultimately show ?thesis by blast
qed

section \<open>The continuation rule of the Incremental Loader\<close>





section \<open>Titles through the extractor and the formatter\<close>


lemma dropWhile_last: "dropWhile P xs \<noteq> [] \<Longrightarrow> last (dropWhile P xs) = last xs"
  by (induction xs) (auto split: if_splits)




lemma trimEnd_prefix_head:
  "trimEnd s \<noteq> [] \<Longrightarrow> hd (trimEnd s) = hd s"
proof -
  assume n: "trimEnd s \<noteq> []"
  then have "dropWhile isWhiteSpace (rev s) \<noteq> []" by (simp add: trimEnd_def)
  then have "last (dropWhile isWhiteSpace (rev s)) = last (rev s)" by (rule dropWhile_last)
  moreover have "s \<noteq> []" using n by (auto simp: trimEnd_def)
  ultimately show ?thesis using n by (simp add: trimEnd_def hd_rev last_rev)
qed






















section \<open>The limit of the command-line wrapper\<close>

lemma findIndexFrom_argumentAfter:
  "(case findIndexFrom i ''--limit'' argv of None \<Rightarrow> None
    | Some argIdx \<Rightarrow> argAt (pre @ argv) (argIdx + 1)) = argumentAfter ''--limit'' argv"
  if "length pre = i"
  using that
proof (induction argv arbitrary: i pre)
  case Nil
  then show ?case by simp
next
  case (Cons a argv)
  show ?case
  proof (cases "a = ''--limit''")
    case True
    with Cons.prems show ?thesis
      by (cases argv) (simp_all add: argAt_def nth_append)
  next
    case False
    have "length (pre @ [a]) = i + 1" using Cons.prems by simp
    from Cons.IH [OF this] False show ?thesis by (simp cong: option.case_cong)
  qed
qed

lemma limit_argument:
  "(case findIndexFrom 0 ''--limit'' argv of None \<Rightarrow> None
    | Some argIdx \<Rightarrow> argAt argv (argIdx + 1)) = argumentAfter ''--limit'' argv"
  using findIndexFrom_argumentAfter [of "[]" 0 argv] by (simp cong: option.case_cong)

lemma positiveFloor_usable:
  "positiveFloor n = (case n of Finite r \<Rightarrow> if usable n then Some \<lfloor>r\<rfloor> else None | _ \<Rightarrow> None)"
  by (cases n) (simp_all add: positiveFloor_def usable_def)

lemma parseLimitArg_spec:
  "parseLimitArg toNumber argv envLimit =
     map_option floor (specLimit toNumber argv envLimit)"
proof -
  let ?a = "argumentAfter ''--limit'' argv"
  have fromArg:
    "(case findIndexFrom 0 ''--limit'' argv of None \<Rightarrow> None
      | Some argIdx \<Rightarrow>
          if truthy (argAt argv (argIdx + 1))
          then positiveFloor (numberOf toNumber (argAt argv (argIdx + 1))) else None)
     = positiveFloor (parsedSetting toNumber ?a)"
    using limit_argument [of argv]
    by (auto simp: truthy_def parsedSetting_def numberOf_def positiveFloor_def
        split: option.splits)
  show ?thesis
    unfolding parseLimitArg_def fromArg specLimit_def Let_def
    by (cases "parsedSetting toNumber ?a"; cases "numberOf toNumber envLimit")
       (simp_all add: positiveFloor_def usable_def)
qed

lemma specLimit_positive: "specLimit toNumber argv envLimit = Some r \<Longrightarrow> 0 < r"
  by (auto simp: specLimit_def Let_def usable_def split: if_splits jsnum.splits)

lemma parseLimitArg_nonneg: "parseLimitArg toNumber argv envLimit = Some k \<Longrightarrow> 0 \<le> k"
  using specLimit_positive [of toNumber argv envLimit]
  by (auto simp: parseLimitArg_spec)

lemma applyLimit_nonempty: "rows \<noteq> [] \<Longrightarrow> (\<And>k. limit = Some k \<Longrightarrow> 0 \<le> k) \<Longrightarrow> applyLimit limit rows \<noteq> []"
  by (cases limit) (auto simp: applyLimit_def slice0_def)


text \<open>
  Claim C9. \<open>parseLimitArg\<close> returns the floor of the limit in force, and returns
  \<open>null\<close> when no limit is in force: the limit in force is the number that the
  (non-empty) argument after the first \<open>--limit\<close> parses to when that number is finite
  and above 0, failing that the number of the \<open>LIMIT\<close> variable when that one is finite
  and above 0. An absent, non-numeric, zero or negative setting is not usable, and when
  neither setting is usable the result is \<open>null\<close> and the whole list of rows is written.
  Whatever the settings, a non-empty list of rows is never cut down to the empty list,
  and the wrapper writes the rows whenever the scraper returns: a setting of the limit
  never turns a run into an error exit.
\<close>

theorem parseLimitArg_floor:
  "parseLimitArg toNumber argv envLimit = map_option floor (specLimit toNumber argv envLimit) \<and>
   ((parseLimitArg toNumber argv envLimit = None) =
      (\<not> usable (parsedSetting toNumber (argumentAfter ''--limit'' argv)) \<and>
       \<not> usable (numberOf toNumber envLimit))) \<and>
   (parseLimitArg toNumber argv envLimit = None \<longrightarrow>
      applyLimit (parseLimitArg toNumber argv envLimit) rows = rows) \<and>
   (rows \<noteq> [] \<longrightarrow> applyLimit (parseLimitArg toNumber argv envLimit) rows \<noteq> []) \<and>
   (outcome (scrape60fps Primary env) = Returned shots \<longrightarrow>
      cliMain toNumber argv envLimit nowIso env =
        Stdout (applyLimit (parseLimitArg toNumber argv envLimit) (map (formatRow nowIso) shots)))"
proof (intro conjI impI)
  show "parseLimitArg toNumber argv envLimit = map_option floor (specLimit toNumber argv envLimit)"
    by (rule parseLimitArg_spec)
  show "(parseLimitArg toNumber argv envLimit = None) =
      (\<not> usable (parsedSetting toNumber (argumentAfter ''--limit'' argv)) \<and>
       \<not> usable (numberOf toNumber envLimit))"
    by (auto simp: parseLimitArg_spec specLimit_def Let_def usable_def split: jsnum.splits)
  show "applyLimit (parseLimitArg toNumber argv envLimit) rows = rows"
    if "parseLimitArg toNumber argv envLimit = None"
    using that by (simp add: applyLimit_def)
  show "applyLimit (parseLimitArg toNumber argv envLimit) rows \<noteq> []" if "rows \<noteq> []"
    using that parseLimitArg_nonneg by (rule applyLimit_nonempty)
  show "cliMain toNumber argv envLimit nowIso env =
        Stdout (applyLimit (parseLimitArg toNumber argv envLimit) (map (formatRow nowIso) shots))"
    if "outcome (scrape60fps Primary env) = Returned shots"
    using that by (simp add: cliMain_def)
qed

theorem parseLimitArg_floor_witness:
  "parseLimitArg exampleNumber [''node'', ''scrape60fps-n8n.js'', ''--limit'', ''2.5''] None = Some 2 \<and>
   parseLimitArg exampleNumber [''node'', ''scrape60fps-n8n.js'', ''--limit'', ''-3''] (Some ''0'') = None \<and>
   applyLimit (parseLimitArg exampleNumber [''node'', ''scrape60fps-n8n.js'', ''--limit'', ''-3''] (Some ''0''))
     [1, 2, 3 :: nat] = [1, 2, 3]"
proof -
  let ?good = "[''node'', ''scrape60fps-n8n.js'', ''--limit'', ''2.5'']"
  let ?bad = "[''node'', ''scrape60fps-n8n.js'', ''--limit'', ''-3'']"
  have s: "specLimit exampleNumber ?good None = Some (5 / 2)" by code_simp
  have f: "\<lfloor>5 / 2 :: rat\<rfloor> = 2" by (rule floor_unique) simp_all
  have g: "parseLimitArg exampleNumber ?good None = Some 2"
    using parseLimitArg_floor [of exampleNumber ?good None, THEN conjunct1] s f by simp
  have u: "\<not> usable (parsedSetting exampleNumber (argumentAfter ''--limit'' ?bad)) \<and>
           \<not> usable (numberOf exampleNumber (Some ''0''))" by code_simp
  have n: "parseLimitArg exampleNumber ?bad (Some ''0'') = None"
    using parseLimitArg_floor [of exampleNumber ?bad "Some ''0''", THEN conjunct2, THEN conjunct1] u
    by blast
  have "applyLimit (parseLimitArg exampleNumber ?bad (Some ''0'')) [1, 2, 3 :: nat] = [1, 2, 3]"
    using parseLimitArg_floor [of exampleNumber ?bad "Some ''0''" "[1, 2, 3 :: nat]",
        THEN conjunct2, THEN conjunct2, THEN conjunct1] n by blast
  with g n show ?thesis by blast
qed

section \<open>Titles of the formatted records\<close>









section \<open>The fallback on a failing stage\<close>







section \<open>The limit parameter of the HTTP endpoint\<close>

lemma handler_ignores_query: "handler (req\<lparr>q_limit := l\<rparr>) nowIso env = handler req nowIso env"
  by (simp add: handler_def)

lemma cli_limit_behaviour:
  "(0 < k \<and> nat k < length rows \<longrightarrow> applyLimit (Some k) rows = take (nat k) rows) \<and>
   (0 < k \<and> length rows \<le> nat k \<longrightarrow> applyLimit (Some k) rows = rows) \<and>
   applyLimit None rows = rows"
  by (auto simp: applyLimit_def slice0_def)

text \<open>
  Claim C4, evaluated where it fails. The handler is sent \<open>?limit=1\<close> while the scraper
  falls back to its three example records: the answer holds all three records. The
  command-line wrapper with \<open>--limit 1\<close> on the same session writes one record.
\<close>

theorem handler_limit_ignored:
  "handler limitOneRequest ''2025-09-20T11:40:18.861Z'' navigationFailure
     = Json200 (map (formatRow ''2025-09-20T11:40:18.861Z'') (mockData Serverless)) \<and>
   length (map (formatRow ''2025-09-20T11:40:18.861Z'') (mockData Serverless)) = 3 \<and>
   q_limit limitOneRequest = Some ''1'' \<and>
   cliMain exampleNumber [''node'', ''scrape60fps-n8n.js'', ''--limit'', ''1''] None
       ''2025-09-20T11:40:18.861Z'' navigationFailure
     = Stdout (take 1 (map (formatRow ''2025-09-20T11:40:18.861Z'') (mockData Primary)))"
  by code_simp

section \<open>The test on anchors\<close>

lemma primary_href_test:
  "acceptHref Primary h =
     (includesStr h ''/shots/'' \<and> \<not> includesStr h ''filter'' \<and> \<not> includesStr h ''watch'' \<and>
      15 < length h)"
  by (auto simp: acceptHref_def)

lemma serverless_href_test:
  "acceptHref Serverless h =
     (includesStr h ''/shots/'' \<and> \<not> includesStr h ''filter'' \<and> 15 < length h)"
  by (auto simp: acceptHref_def)

text \<open>
  Claim C6, evaluated where it fails. The serverless extractor accepts an anchor whose
  \<open>href\<close> contains \<open>watch\<close>, and returns a shot whose url embeds it; the primary
  extractor rejects the same anchor and returns nothing for that video.
\<close>

theorem serverless_accepts_watch:
  "includesStr ''/shots/watch-demo-clip'' ''watch'' \<and>
   acceptHref Serverless ''/shots/watch-demo-clip'' \<and>
   \<not> acceptHref Primary ''/shots/watch-demo-clip'' \<and>
   extractShots Serverless watchVideos =
     [\<lparr>url = ''https://60fps.design/shots/watch-demo-clip'',
       preview = ''https://cdn.example/clip.mp4'', title = Some ''Video 1''\<rparr>] \<and>
   extractShots Primary watchVideos = []"
  by code_simp

section \<open>Closing the browser\<close>

lemma serverless_closes:
  "launched (scrape60fps Serverless env) \<Longrightarrow> closeCalled (scrape60fps Serverless env)"
  by (auto simp: scrape60fps_def scrape60fpsServerless_def closing_def
      split: option.splits sum.splits)

lemma primary_closes_after_setup:
  "s_launch env = None \<Longrightarrow> s_newContext env = None \<Longrightarrow> s_newPage env = Inr s0 \<Longrightarrow>
     closeCalled (scrape60fps Primary env)"
  by (auto simp: scrape60fps_def scrape60fpsPrimary_def closing_def split: option.splits)

text \<open>
  Claim C8, evaluated where it fails. When \<open>browser.newContext\<close> rejects after a
  successful launch, the primary scraper lets the error escape without having called
  \<open>browser.close\<close>; the serverless scraper, on the same session, closes the browser.
\<close>

theorem primary_leaves_browser_open:
  "scrape60fps Primary contextFailure =
     \<lparr>outcome = Threw ''browser.newContext: failed'', launched = True, closeCalled = False\<rparr> \<and>
   scrape60fps Serverless contextFailure =
     \<lparr>outcome = Returned (mockData Serverless), launched = True, closeCalled = True\<rparr>"
  by code_simp

end
